theory Spec2Isabelle
  imports Complex_Main
begin

section \<open>The Finnhub to Elasticsearch job (Amazon/etl/finnhub\_etl\_elasticsearch.py)\<close>

text \<open>
  The script is one straight-line batch job: resolve an Elasticsearch client, make sure
  the index exists, fetch daily candles for five symbols, derive columns, drop incomplete
  rows and bulk-index one document per row.

  Conventions of the embedding.
  \<^item> A cell of a price or volume column is a \<open>rat option\<close>: \<open>None\<close> is the missing value
    of pandas (NaN, None, NaT), \<open>Some x\<close> the number \<open>x\<close> of the reply, as a rational.
  \<^item> The arithmetic of lines 169 to 174 is the arithmetic of doubles: a difference or a
    quotient is rounded to the nearest double (ties to even), a result too large is an
    infinity, and a zero divisor gives an infinity or a missing value, never an exception.
    Derived columns hold \<open>xnum option\<close>. The model has one zero: a negative zero in a
    reply is outside it, as are an integer beyond \<open>2 ^ 53\<close> in magnitude that pandas stores
    in a \<open>float64\<close> column and a difference of two \<open>int64\<close> columns that leaves the range
    of \<open>int64\<close>.
  \<^item> What pandas does beyond that is a parameter, the record \<open>pandas\<close>: whether
    \<open>pct_change\<close> pads, and whether building a frame raises on arrays that are not plain
    (instants outside the \<open>datetime64[ns]\<close> range, integers that no \<open>int64\<close> holds).
  \<^item> An instant is the number of seconds since 1970-01-01T00:00:00 (an \<open>int\<close>).
  \<^item> Everything the script reads from outside (the behaviour of each Elasticsearch
    candidate, the HTTP replies, the clock, the random draws, the outcome of a bulk call)
    is a field of the record \<open>world\<close>; console output and calls to the outside are the
    events of a trace.
\<close>

subsection \<open>Numbers\<close>

datatype xnum = Fin rat | PInf | NInf

text \<open>The number of binary digits of a natural number.\<close>

fun bit_length :: "nat \<Rightarrow> nat" where
  "bit_length n = (if n = 0 then 0 else Suc (bit_length (n div 2)))"

declare bit_length.simps [simp del]

text \<open>For \<open>a > 0\<close>, the exponent \<open>e\<close> with \<open>2 ^ e \<le> a < 2 ^ (e + 1)\<close>.\<close>

definition exponent_of :: "rat \<Rightarrow> int" where
  "exponent_of a =
     (if 1 \<le> a then int (bit_length (nat \<lfloor>a\<rfloor>)) - 1
      else - int (bit_length (nat (\<lceil>1 / a\<rceil> - 1))))"

definition round_half_even :: "rat \<Rightarrow> int" where
  "round_half_even x =
     (if x - of_int \<lfloor>x\<rfloor> < 1 / 2 then \<lfloor>x\<rfloor>
      else if 1 / 2 < x - of_int \<lfloor>x\<rfloor> then \<lfloor>x\<rfloor> + 1
      else if even \<lfloor>x\<rfloor> then \<lfloor>x\<rfloor> else \<lfloor>x\<rfloor> + 1)"

definition pow2 :: "int \<Rightarrow> rat" where
  "pow2 k = (if 0 \<le> k then 2 ^ nat k else 1 / 2 ^ nat (- k))"

text \<open>The spacing of the doubles around \<open>a > 0\<close>: 53 significant bits, and the spacing
  \<open>2 ^ - 1074\<close> of the subnormal numbers below \<open>2 ^ - 1022\<close>.\<close>

definition quantum :: "rat \<Rightarrow> rat" where
  "quantum a = pow2 (max (exponent_of a) (- 1022) - 52)"

text \<open>The double nearest to \<open>x\<close> (IEEE 754 binary64, round to nearest, ties to even): an
  infinity when the rounded magnitude reaches \<open>2 ^ 1024\<close>.\<close>

definition round_double :: "rat \<Rightarrow> xnum" where
  "round_double x =
     (if x = 0 then Fin 0
      else if 2 ^ 1024 \<le> of_int (round_half_even (\<bar>x\<bar> / quantum \<bar>x\<bar>)) * quantum \<bar>x\<bar>
      then (if 0 < x then PInf else NInf)
      else Fin (sgn x * (of_int (round_half_even (\<bar>x\<bar> / quantum \<bar>x\<bar>)) * quantum \<bar>x\<bar>)))"

text \<open>A number that is a double: every number of a \<open>float64\<close> column, and every integer
  up to \<open>2 ^ 53\<close> in magnitude.\<close>

definition is_double :: "rat \<Rightarrow> bool" where
  "is_double x = (round_double x = Fin x)"

text \<open>The quotient of two doubles or infinities, as IEEE 754 divides: \<open>x / 0\<close> is an
  infinity of the sign of \<open>x\<close>; \<open>0 / 0\<close> and the quotient of two infinities are not a
  number, that is, missing.\<close>

fun xdiv :: "xnum \<Rightarrow> xnum \<Rightarrow> xnum option" where
  "xdiv (Fin x) (Fin y) =
     (if y \<noteq> 0 then Some (round_double (x / y))
      else if 0 < x then Some PInf
      else if x < 0 then Some NInf
      else None)"
| "xdiv (Fin x) PInf = Some (Fin 0)"
| "xdiv (Fin x) NInf = Some (Fin 0)"
| "xdiv PInf (Fin y) = Some (if 0 \<le> y then PInf else NInf)"
| "xdiv NInf (Fin y) = Some (if 0 \<le> y then NInf else PInf)"
| "xdiv PInf PInf = None"
| "xdiv PInf NInf = None"
| "xdiv NInf PInf = None"
| "xdiv NInf NInf = None"

text \<open>\<open>a / b\<close> on two cells, as numpy divides: both operands as doubles (that is what a
  \<open>float64\<close> column holds, and what an \<open>int64\<close> column is converted to), a missing operand
  gives a missing result.\<close>

definition true_div :: "rat option \<Rightarrow> rat option \<Rightarrow> xnum option" where
  "true_div a b =
     (case a of
        None \<Rightarrow> None
      | Some x \<Rightarrow>
          (case b of
             None \<Rightarrow> None
           | Some y \<Rightarrow> xdiv (round_double x) (round_double y)))"

text \<open>\<open>a - b\<close> on two cells: the difference, as a double. Two \<open>float64\<close> columns give
  it directly; two \<open>int64\<close> columns give the exact difference, of which the document
  takes the \<open>float\<close>.\<close>

definition cell_sub :: "rat option \<Rightarrow> rat option \<Rightarrow> xnum option" where
  "cell_sub a b =
     (case a of
        None \<Rightarrow> None
      | Some x \<Rightarrow> (case b of None \<Rightarrow> None | Some y \<Rightarrow> Some (round_double (x - y))))"

text \<open>\<open>q - 1\<close> on a quotient.\<close>

fun minus_one :: "xnum \<Rightarrow> xnum" where
  "minus_one (Fin x) = round_double (x - 1)"
| "minus_one PInf = PInf"
| "minus_one NInf = NInf"

text \<open>\<open>Series.replace(0, np.nan)\<close> on one cell.\<close>

definition replace_zero :: "rat option \<Rightarrow> rat option" where
  "replace_zero a = (if a = Some 0 then None else a)"

text \<open>Python's \<open>int(x)\<close> on a finite float: truncation towards zero.\<close>

definition py_int :: "rat \<Rightarrow> int" where
  "py_int x = (if 0 \<le> x then \<lfloor>x\<rfloor> else \<lceil>x\<rceil>)"

subsection \<open>\<open>Series.pct_change()\<close>\<close>

text \<open>
  pandas computes \<open>data / data.shift(1) - 1\<close>, where \<open>data\<close> is the series itself or,
  with the fill method \<open>pad\<close> (the default before pandas 3), the series with every missing
  value replaced by the last value before it. The flag \<open>pad\<close> selects between the two.
\<close>

fun ffill_from :: "'a option \<Rightarrow> 'a option list \<Rightarrow> 'a option list" where
  "ffill_from prev [] = []"
| "ffill_from prev (None # xs) = prev # ffill_from prev xs"
| "ffill_from prev (Some x # xs) = Some x # ffill_from (Some x) xs"

definition ffill :: "'a option list \<Rightarrow> 'a option list" where
  "ffill xs = ffill_from None xs"

definition shift1 :: "'a option list \<Rightarrow> 'a option list" where
  "shift1 xs = (if xs = [] then [] else None # butlast xs)"

text \<open>\<open>a / b - 1\<close> on two cells.\<close>

definition change :: "rat option \<Rightarrow> rat option \<Rightarrow> xnum option" where
  "change a b = map_option minus_one (true_div a b)"

definition pct_change :: "bool \<Rightarrow> rat option list \<Rightarrow> xnum option list" where
  "pct_change pad xs =
     (let d = (if pad then ffill xs else xs)
      in map (\<lambda>(a, b). change a b) (zip d (shift1 d)))"


subsection \<open>Instants: \<open>pd.to_datetime(..., unit='s')\<close> and the \<open>.dt\<close> accessors\<close>

text \<open>
  The instants whose count of nanoseconds fits an int64, the narrowest range of any
  version of pandas: \<open>to_datetime\<close> converts these in every version. Beyond them it
  raises in some versions and not in others, which is left to the record \<open>pandas\<close> below.
\<close>

definition within_ns_range :: "int \<Rightarrow> bool" where
  "within_ns_range t = (- 9223372036 \<le> t \<and> t \<le> 9223372036)"

definition hour_of :: "int \<Rightarrow> int" where
  "hour_of t = (t mod 86400) div 3600"

text \<open>The proleptic Gregorian date (year, month, day) of a day number counted from
  1970-01-01, computed era by era (an era is 400 years, 146097 days, starting on a
  1 March).\<close>

definition civil_from_days :: "int \<Rightarrow> int \<times> int \<times> int" where
  "civil_from_days z0 =
     (let z = z0 + 719468;
          era = z div 146097;
          doe = z - era * 146097;
          yoe = (doe - doe div 1460 + doe div 36524 - doe div 146096) div 365;
          doy = doe - (365 * yoe + yoe div 4 - yoe div 100);
          mp = (5 * doy + 2) div 153;
          d = doy - (153 * mp + 2) div 5 + 1;
          m = (if mp < 10 then mp + 3 else mp - 9);
          y = yoe + era * 400 + (if m \<le> 2 then 1 else 0)
      in (y, m, d))"

definition date_of :: "int \<Rightarrow> int \<times> int \<times> int" where
  "date_of t = civil_from_days (t div 86400)"

definition month_of :: "int \<Rightarrow> int" where
  "month_of t = fst (snd (date_of t))"

text \<open>\<open>str\<close> of a natural number, for \<open>.dt.hour.astype(str)\<close>.\<close>

definition digit :: "nat \<Rightarrow> char" where
  "digit n = ''0123456789'' ! n"

fun str_nat :: "nat \<Rightarrow> string" where
  "str_nat n = (if n < 10 then [digit n] else str_nat (n div 10) @ [digit (n mod 10)])"

declare str_nat.simps [simp del]

subsection \<open>Rows of the data frame\<close>

text \<open>One row of \<open>df\<close>. A field is \<open>None\<close> when the cell is missing or when the frame has
  no such column (the one-row frame of the fallback has eight columns only).\<close>

record row =
  r_symbol :: "string option"
  r_timestamp :: "int option"
  r_open :: "rat option"
  r_high :: "rat option"
  r_low :: "rat option"
  r_close :: "rat option"
  r_volume :: "rat option"
  r_price_change :: "xnum option"
  r_volume_change :: "xnum option"
  r_hour :: "string option"
  r_month :: "int option"
  r_trip_date :: "(int \<times> int \<times> int) option"
  r_price_per_volume :: "xnum option"
  r_sentiment :: "string option"
  r_season :: "string option"

subsection \<open>The fetch loop (lines 151 to 183)\<close>

text \<open>The decoded JSON body: \<open>data.get('s')\<close>, and the arrays under the keys t, o, h, l, c
  and v, each \<open>None\<close> when the key is absent. The instants are integers, as Finnhub
  sends them. A JSON null inside a price or volume array is a missing cell.\<close>

record response =
  rs_s :: "string option"
  rs_t :: "int list option"
  rs_o :: "rat option list option"
  rs_h :: "rat option list option"
  rs_l :: "rat option list option"
  rs_c :: "rat option list option"
  rs_v :: "rat option list option"

text \<open>What the installed pandas does where its versions, or the types it infers for a
  column, differ: whether \<open>pct_change\<close> pads, and whether lines 160 to 175 raise on six
  arrays of one length that are not plain (\<open>to_datetime\<close> on an instant out of its range,
  or the arithmetic on a column that holds Python objects).\<close>

record pandas =
  pd_pads :: bool
  pd_raises ::
    "int list \<Rightarrow> rat option list \<Rightarrow> rat option list \<Rightarrow> rat option list \<Rightarrow>
     rat option list \<Rightarrow> rat option list \<Rightarrow> bool"

text \<open>A plain column has a number, and each of its numbers is below \<open>2 ^ 63\<close> in
  magnitude: pandas makes it an \<open>int64\<close> or a \<open>float64\<close> column, whose arithmetic never
  raises. A plain frame has plain columns and instants within the bounds above.\<close>

definition plain_column :: "rat option list \<Rightarrow> bool" where
  "plain_column xs =
     (list_all (\<lambda>c. case c of None \<Rightarrow> True | Some x \<Rightarrow> \<bar>x\<bar> < 2 ^ 63) xs
      \<and> list_ex (\<lambda>c. c \<noteq> None) xs)"

definition plain_frame ::
  "int list \<Rightarrow> rat option list \<Rightarrow> rat option list \<Rightarrow> rat option list \<Rightarrow>
   rat option list \<Rightarrow> rat option list \<Rightarrow> bool" where
  "plain_frame ts os hs ls cs vs =
     (list_all within_ns_range ts \<and> plain_column os \<and> plain_column hs \<and> plain_column ls
      \<and> plain_column cs \<and> plain_column vs)"

definition frame_raises ::
  "pandas \<Rightarrow> int list \<Rightarrow> rat option list \<Rightarrow> rat option list \<Rightarrow> rat option list \<Rightarrow>
   rat option list \<Rightarrow> rat option list \<Rightarrow> bool" where
  "frame_raises lib ts os hs ls cs vs =
     (if plain_frame ts os hs ls cs vs then False else pd_raises lib ts os hs ls cs vs)"

text \<open>\<open>temp_df\<close> with its derived columns, for arrays of one length. Row \<open>i\<close> reads
  position \<open>i\<close> of every column; the column \<open>season\<close> does not exist yet.\<close>

definition temp_df ::
  "bool \<Rightarrow> string \<Rightarrow> int list \<Rightarrow> rat option list \<Rightarrow> rat option list \<Rightarrow> rat option list \<Rightarrow>
   rat option list \<Rightarrow> rat option list \<Rightarrow> row list" where
  "temp_df pad symbol ts os hs ls cs vs =
     (let volume_change = pct_change pad vs
      in map (\<lambda>i.
           \<lparr> r_symbol = Some symbol,
             r_timestamp = Some (ts ! i),
             r_open = os ! i,
             r_high = hs ! i,
             r_low = ls ! i,
             r_close = cs ! i,
             r_volume = vs ! i,
             r_price_change = cell_sub (cs ! i) (os ! i),
             r_volume_change = volume_change ! i,
             r_hour = Some (str_nat (nat (hour_of (ts ! i)))),
             r_month = Some (month_of (ts ! i)),
             r_trip_date = Some (date_of (ts ! i)),
             r_price_per_volume = true_div (cs ! i) (replace_zero (vs ! i)),
             r_sentiment = Some ''Neutral'',
             r_season = None \<rparr>)
         [0..<length ts])"

text \<open>What one pass of the loop body leaves: a frame appended to \<open>df_list\<close>, the
  \<open>else\<close> branch (no data), or an exception caught by the \<open>except\<close> clause. The reply is
  \<open>None\<close> when the request or the JSON decoding raised. Inside the \<open>if\<close>, a missing key
  raises KeyError, arrays of different lengths raise ValueError in the \<open>DataFrame\<close>
  constructor, and on arrays of one length pandas raises where \<open>frame_raises\<close> says.\<close>

datatype fetched = Frame "row list" | NoData | FetchError

definition fetch_symbol :: "pandas \<Rightarrow> string \<Rightarrow> response option \<Rightarrow> fetched" where
  "fetch_symbol lib symbol reply =
     (case reply of
        None \<Rightarrow> FetchError
      | Some data \<Rightarrow>
          (if rs_s data = Some ''ok'' \<and> rs_t data \<noteq> None \<and> rs_t data \<noteq> Some [] then
             (case rs_t data of None \<Rightarrow> FetchError | Some ts \<Rightarrow>
             (case rs_o data of None \<Rightarrow> FetchError | Some os \<Rightarrow>
             (case rs_h data of None \<Rightarrow> FetchError | Some hs \<Rightarrow>
             (case rs_l data of None \<Rightarrow> FetchError | Some ls \<Rightarrow>
             (case rs_c data of None \<Rightarrow> FetchError | Some cs \<Rightarrow>
             (case rs_v data of None \<Rightarrow> FetchError | Some vs \<Rightarrow>
                (if length os = length ts \<and> length hs = length ts \<and> length ls = length ts
                    \<and> length cs = length ts \<and> length vs = length ts
                    \<and> \<not> frame_raises lib ts os hs ls cs vs
                 then Frame (temp_df (pd_pads lib) symbol ts os hs ls cs vs)
                 else FetchError)))))))
           else NoData))"

text \<open>The rows a symbol contributes to \<open>df_list\<close>.\<close>

fun rows_of :: "fetched \<Rightarrow> row list" where
  "rows_of (Frame rows) = rows"
| "rows_of NoData = []"
| "rows_of FetchError = []"

fun is_frame :: "fetched \<Rightarrow> bool" where
  "is_frame (Frame rows) = True"
| "is_frame NoData = False"
| "is_frame FetchError = False"

definition symbols :: "string list" where
  "symbols = [''AAPL'', ''TSLA'', ''MSFT'', ''GOOGL'', ''AMZN'']"

definition index_name :: string where
  "index_name = ''finnhub_stocks''"

subsection \<open>The synthetic rows (lines 186 to 211)\<close>

text \<open>The random numbers one sample row draws.\<close>

record draw =
  d_open :: rat
  d_high :: rat
  d_low :: rat
  d_close :: rat
  d_volume :: int
  d_price_change :: rat
  d_volume_change :: rat
  d_hour :: nat
  d_price_per_volume :: rat
  d_sentiment :: string

text \<open>The world outside the script.\<close>

datatype info_reply = InfoOk | InfoUnauthorized | InfoRaises

text \<open>How one entry of \<open>ELASTICSEARCH_CONFIGS\<close> behaves: whether the constructor
  \<open>Elasticsearch(**config)\<close> raises, what \<open>es.info()\<close> does (it returns, raises an error
  whose text contains "unauthorized", or raises another error), and whether
  \<open>es.indices.exists(index='test')\<close> raises.\<close>

record candidate =
  ctor_raises :: bool
  info_reply :: info_reply
  exists_raises :: bool

datatype jval = JNull | JStr string | JInt int | JFloat xnum | JTime int | JDate "int \<times> int \<times> int"

text \<open>A bulk action: the index name and the \<open>_source\<close> dictionary, its keys in the order
  the code inserts them. \<open>JTime t\<close> stands for the text \<open>isoformat()\<close> gives the instant
  \<open>t\<close>, \<open>JDate d\<close> for \<open>str\<close> of the date \<open>d\<close>.\<close>

record action =
  a_index :: string
  a_source :: "(string \<times> jval) list"

text \<open>\<open>helpers.bulk\<close> raises, or returns the count of successes and the failed items
  (here their number).\<close>

datatype bulk_reply = BulkRaises | BulkReturns nat nat

record world =
  env_configured :: bool
  env_candidate :: candidate
  local_candidate :: candidate
  pd :: pandas
  api :: "string \<Rightarrow> response option"
  now :: int
  rand :: "string \<Rightarrow> nat \<Rightarrow> draw"
  es_bulk :: "nat \<Rightarrow> action list \<Rightarrow> bulk_reply"

text \<open>
  \<^item> \<open>env_configured\<close>: the three environment variables are all set and non-empty, so the
    environment's entry comes first in \<open>ELASTICSEARCH_CONFIGS\<close>;
  \<^item> \<open>pd\<close>: the installed pandas;
  \<^item> \<open>api symbol\<close>: the decoded reply to the request for \<open>symbol\<close>, \<open>None\<close> when the
    request or the decoding raised;
  \<^item> \<open>now\<close>: \<open>datetime.now()\<close>, read as one instant for the whole run;
  \<^item> \<open>rand symbol i\<close>: the random draws of sample row \<open>i\<close> of \<open>symbol\<close>;
  \<^item> \<open>es_bulk k actions\<close>: what the \<open>k\<close>-th call of \<open>helpers.bulk\<close> (counted from 0) does
    with the actions it is given.
\<close>

definition sample_row :: "int \<Rightarrow> string \<Rightarrow> nat \<Rightarrow> draw \<Rightarrow> row" where
  "sample_row clock symbol i d =
     (let date = clock - int i * 86400
      in \<lparr> r_symbol = Some symbol,
           r_timestamp = Some date,
           r_open = Some (d_open d),
           r_high = Some (d_high d),
           r_low = Some (d_low d),
           r_close = Some (d_close d),
           r_volume = Some (of_int (d_volume d)),
           r_price_change = Some (Fin (d_price_change d)),
           r_volume_change = Some (Fin (d_volume_change d)),
           r_hour = Some (str_nat (d_hour d)),
           r_month = Some (month_of date),
           r_trip_date = Some (date_of date),
           r_price_per_volume = Some (Fin (d_price_per_volume d)),
           r_sentiment = Some (d_sentiment d),
           r_season = None \<rparr>)"

definition sample_data :: "world \<Rightarrow> row list" where
  "sample_data w =
     concat (map (\<lambda>symbol. map (\<lambda>i. sample_row (now w) symbol i (rand w symbol i)) [0..<30])
       symbols)"

text \<open>\<open>df_list\<close> after the loop, and \<open>df\<close> at line 213.\<close>

definition df_list :: "world \<Rightarrow> row list list" where
  "df_list w =
     map rows_of
       (filter is_frame (map (\<lambda>symbol. fetch_symbol (pd w) symbol (api w symbol)) symbols))"

definition load_df :: "world \<Rightarrow> row list" where
  "load_df w = (if df_list w = [] then sample_data w else concat (df_list w))"

subsection \<open>The transformer (lines 215 to 223)\<close>

definition get_season :: "int \<Rightarrow> string" where
  "get_season month =
     (if month \<in> set [12, 1, 2] then ''Winter''
      else if month \<in> set [3, 4, 5] then ''Spring''
      else if month \<in> set [6, 7, 8] then ''Summer''
      else if month \<in> set [9, 10, 11] then ''Fall''
      else ''Unknown'')"

text \<open>\<open>df['season'] = df['month'].apply(get_season)\<close>: a missing month is NaN, which is in
  none of the four lists.\<close>

definition add_season :: "row \<Rightarrow> row" where
  "add_season r =
     r\<lparr>r_season := Some (case r_month r of None \<Rightarrow> ''Unknown'' | Some m \<Rightarrow> get_season m)\<rparr>"

text \<open>\<open>df.dropna(subset=['@timestamp', 'symbol', 'close', 'volume'])\<close>.\<close>

definition complete :: "row \<Rightarrow> bool" where
  "complete r =
     (r_timestamp r \<noteq> None \<and> r_symbol r \<noteq> None \<and> r_close r \<noteq> None \<and> r_volume r \<noteq> None)"

definition dropna :: "row list \<Rightarrow> row list" where
  "dropna df = filter complete df"

definition transform :: "row list \<Rightarrow> row list" where
  "transform df = dropna (map add_season df)"

subsection \<open>The bulk loader (lines 229 to 293)\<close>

definition optional :: "string \<Rightarrow> jval option \<Rightarrow> (string \<times> jval) list" where
  "optional key v = (case v of None \<Rightarrow> [] | Some x \<Rightarrow> [(key, x)])"

text \<open>The body of the loop of \<open>generate_actions\<close>. On these rows no conversion raises, so
  the \<open>except\<close> clause of the loop body is never entered. \<open>str\<close> of a missing symbol is
  the text of the missing value; \<open>dropna\<close> leaves no such row.\<close>

definition make_doc :: "row \<Rightarrow> action" where
  "make_doc r =
     \<lparr> a_index = index_name,
       a_source =
         [ (''@timestamp'', case r_timestamp r of None \<Rightarrow> JNull | Some t \<Rightarrow> JTime t),
           (''symbol'', JStr (case r_symbol r of None \<Rightarrow> ''None'' | Some s \<Rightarrow> s)),
           (''close'', case r_close r of None \<Rightarrow> JNull | Some c \<Rightarrow> JFloat (Fin c)),
           (''volume'', case r_volume r of None \<Rightarrow> JNull | Some v \<Rightarrow> JInt (py_int v)),
           (''hour'', JStr (case r_hour r of None \<Rightarrow> ''0'' | Some h \<Rightarrow> h)),
           (''month'', case r_month r of None \<Rightarrow> JNull | Some m \<Rightarrow> JInt m),
           (''season'', JStr (case r_season r of None \<Rightarrow> ''Unknown'' | Some s \<Rightarrow> s)),
           (''sentiment'', JStr (case r_sentiment r of None \<Rightarrow> ''Neutral'' | Some s \<Rightarrow> s)) ]
         @ optional ''open'' (map_option (\<lambda>x. JFloat (Fin x)) (r_open r))
         @ optional ''high'' (map_option (\<lambda>x. JFloat (Fin x)) (r_high r))
         @ optional ''low'' (map_option (\<lambda>x. JFloat (Fin x)) (r_low r))
         @ optional ''price_change'' (map_option JFloat (r_price_change r))
         @ optional ''volume_change'' (map_option JFloat (r_volume_change r))
         @ optional ''price_per_volume'' (map_option JFloat (r_price_per_volume r))
         @ optional ''trip_date'' (map_option JDate (r_trip_date r)) \<rparr>"

definition generate_actions :: "row list \<Rightarrow> action list" where
  "generate_actions df = map make_doc df"

text \<open>The value of a field of a document: \<open>None\<close> when the document has no such key.\<close>

definition field :: "action \<Rightarrow> string \<Rightarrow> jval option" where
  "field a key = map_of (a_source a) key"

text \<open>\<open>sample_df\<close> of the fallback (lines 278 to 287).\<close>

definition sample_df :: "int \<Rightarrow> row list" where
  "sample_df clock =
     [\<lparr> r_symbol = Some ''AAPL'',
        r_timestamp = Some clock,
        r_open = None,
        r_high = None,
        r_low = None,
        r_close = Some 150,
        r_volume = Some 1000000,
        r_price_change = None,
        r_volume_change = None,
        r_hour = Some ''14'',
        r_month = Some (month_of clock),
        r_trip_date = None,
        r_price_per_volume = None,
        r_sentiment = Some ''Neutral'',
        r_season = Some ''Fall'' \<rparr>]"

subsection \<open>The connection resolver (lines 32 to 108)\<close>

definition ELASTICSEARCH_CONFIGS :: "world \<Rightarrow> candidate list" where
  "ELASTICSEARCH_CONFIGS w =
     (if env_configured w then [env_candidate w] else []) @ [local_candidate w]"

text \<open>The loop of lines 58 to 86 over the remaining candidates; \<open>es\<close> is the variable of
  that name (\<open>None\<close>, or the number of the attempt that constructed the client it holds)
  and \<open>i\<close> the number of the attempt. The assignment \<open>es = Elasticsearch(**config)\<close> comes
  before the health check, and no path of the loop resets \<open>es\<close>.\<close>

fun connect_loop :: "nat option \<Rightarrow> nat \<Rightarrow> candidate list \<Rightarrow> nat option" where
  "connect_loop es i [] = es"
| "connect_loop es i (c # cs) =
     (if ctor_raises c then connect_loop es (Suc i) cs
      else (case info_reply c of
              InfoOk \<Rightarrow> Some i
            | InfoUnauthorized \<Rightarrow>
                (if exists_raises c then connect_loop (Some i) (Suc i) cs else Some i)
            | InfoRaises \<Rightarrow> connect_loop (Some i) (Suc i) cs))"

definition resolve :: "world \<Rightarrow> nat option" where
  "resolve w = connect_loop None 1 (ELASTICSEARCH_CONFIGS w)"

text \<open>A candidate fails its health check when the loop moves on from it: the constructor
  raised, \<open>info\<close> raised an error that is not an authorization error, or both \<open>info\<close> and
  the index probe raised.\<close>

definition health_check_fails :: "candidate \<Rightarrow> bool" where
  "health_check_fails c =
     (ctor_raises c \<or> info_reply c = InfoRaises
      \<or> (info_reply c = InfoUnauthorized \<and> exists_raises c))"

subsection \<open>The whole run\<close>

datatype event =
    SayAllConnectionsFailed
  | EnsureIndex nat
  | HttpGet string
  | Bulk nat "action list"
  | SayIndexed nat nat
  | SayIndexingError
  | SaySampleIndexed
  | SaySampleFailed

record outcome =
  exit_status :: nat
  trace :: "event list"

definition main_docs :: "world \<Rightarrow> action list" where
  "main_docs w = generate_actions (transform (load_df w))"

text \<open>Lines 267 to 293, with the client \<open>es\<close>.\<close>

definition load :: "world \<Rightarrow> nat \<Rightarrow> event list" where
  "load w es =
     (case es_bulk w 0 (main_docs w) of
        BulkReturns success_count failed_items \<Rightarrow>
          [Bulk es (main_docs w), SayIndexed success_count failed_items]
      | BulkRaises \<Rightarrow>
          [Bulk es (main_docs w), SayIndexingError,
           Bulk es (generate_actions (sample_df (now w)))]
          @ (case es_bulk w 1 (generate_actions (sample_df (now w))) of
               BulkReturns success_count failed_items \<Rightarrow> [SaySampleIndexed]
             | BulkRaises \<Rightarrow> [SaySampleFailed]))"

text \<open>The script from top to bottom: \<open>exit(1)\<close> when \<open>es\<close> is \<open>None\<close> after the loop,
  otherwise the index check, one request per symbol, and the load; then the script
  ends, with status 0.\<close>

definition run :: "world \<Rightarrow> outcome" where
  "run w =
     (case resolve w of
        None \<Rightarrow> \<lparr> exit_status = 1, trace = [SayAllConnectionsFailed] \<rparr>
      | Some es \<Rightarrow>
          \<lparr> exit_status = 0,
            trace = [EnsureIndex es] @ map HttpGet symbols @ load w es \<rparr>)"

text \<open>The bulk submissions of a trace, in order.\<close>

fun bulk_calls :: "event list \<Rightarrow> action list list" where
  "bulk_calls [] = []"
| "bulk_calls (Bulk es actions # evs) = actions # bulk_calls evs"
| "bulk_calls (SayAllConnectionsFailed # evs) = bulk_calls evs"
| "bulk_calls (EnsureIndex es # evs) = bulk_calls evs"
| "bulk_calls (HttpGet symbol # evs) = bulk_calls evs"
| "bulk_calls (SayIndexed n f # evs) = bulk_calls evs"
| "bulk_calls (SayIndexingError # evs) = bulk_calls evs"
| "bulk_calls (SaySampleIndexed # evs) = bulk_calls evs"
| "bulk_calls (SaySampleFailed # evs) = bulk_calls evs"

fun http_calls :: "event list \<Rightarrow> string list" where
  "http_calls [] = []"
| "http_calls (HttpGet symbol # evs) = symbol # http_calls evs"
| "http_calls (Bulk es actions # evs) = http_calls evs"
| "http_calls (SayAllConnectionsFailed # evs) = http_calls evs"
| "http_calls (EnsureIndex es # evs) = http_calls evs"
| "http_calls (SayIndexed n f # evs) = http_calls evs"
| "http_calls (SayIndexingError # evs) = http_calls evs"
| "http_calls (SaySampleIndexed # evs) = http_calls evs"
| "http_calls (SaySampleFailed # evs) = http_calls evs"

subsection \<open>Concrete inputs\<close>

text \<open>The reply of the end-to-end scenario, and the reply Finnhub gives when it has no
  candles.\<close>

definition mock_reply :: response where
  "mock_reply =
     \<lparr> rs_s = Some ''ok'', rs_t = Some [1714521600],
       rs_o = Some [Some 100], rs_h = Some [Some 110], rs_l = Some [Some 90],
       rs_c = Some [Some 105], rs_v = Some [Some 1000] \<rparr>"

definition no_data_reply :: response where
  "no_data_reply =
     \<lparr> rs_s = Some ''no_data'', rs_t = None,
       rs_o = None, rs_h = None, rs_l = None, rs_c = None, rs_v = None \<rparr>"

text \<open>Two days of one symbol: the volume goes from 100 to 150, the second day's close
  is 150.\<close>

definition two_day_reply :: response where
  "two_day_reply =
     \<lparr> rs_s = Some ''ok'', rs_t = Some [1714521600, 1714608000],
       rs_o = Some [Some 100, Some 140], rs_h = Some [Some 110, Some 160],
       rs_l = Some [Some 90, Some 130], rs_c = Some [Some 105, Some 150],
       rs_v = Some [Some 100, Some 150] \<rparr>"

text \<open>Two days with the volumes 1000000 and 0.\<close>

definition zero_volume_reply :: response where
  "zero_volume_reply =
     \<lparr> rs_s = Some ''ok'', rs_t = Some [1714521600, 1714608000],
       rs_o = Some [Some 140, Some 150], rs_h = Some [Some 160, Some 150],
       rs_l = Some [Some 130, Some 150], rs_c = Some [Some 150, Some 150],
       rs_v = Some [Some 1000000, Some 0] \<rparr>"

text \<open>A reply with the status "ok" and one instant, and no price or volume array.\<close>

definition ok_without_prices :: response where
  "ok_without_prices =
     \<lparr> rs_s = Some ''ok'', rs_t = Some [1714521600],
       rs_o = None, rs_h = None, rs_l = None, rs_c = None, rs_v = None \<rparr>"


text \<open>A pandas that pads in \<open>pct_change\<close>, as pandas 2 does, and one that does not, as
  pandas 3. The replies above are plain, so what these two do on other frames is never
  consulted; they are taken to raise there.\<close>

definition padding_pandas :: pandas where
  "padding_pandas = \<lparr> pd_pads = True, pd_raises = (\<lambda>ts os hs ls cs vs. True) \<rparr>"

definition plain_pandas :: pandas where
  "plain_pandas = \<lparr> pd_pads = False, pd_raises = (\<lambda>ts os hs ls cs vs. True) \<rparr>"

text \<open>A candidate that answers \<open>info\<close>, and one whose client is constructed and whose
  every request then raises a connection error.\<close>

definition reachable :: candidate where
  "reachable = \<lparr> ctor_raises = False, info_reply = InfoOk, exists_raises = False \<rparr>"

definition refusing :: candidate where
  "refusing = \<lparr> ctor_raises = False, info_reply = InfoRaises, exists_raises = True \<rparr>"

definition some_draw :: draw where
  "some_draw =
     \<lparr> d_open = 150, d_high = 225, d_low = 75, d_close = 150, d_volume = 5000000,
       d_price_change = 0, d_volume_change = 0, d_hour = 12,
       d_price_per_volume = 1 / 20000, d_sentiment = ''Neutral'' \<rparr>"

text \<open>The world of the end-to-end scenario: no environment entry, a local Elasticsearch
  that works, candles for AAPL only. In \<open>down_world\<close> nothing listens on either address.\<close>

definition mock_world :: world where
  "mock_world =
     \<lparr> env_configured = False, env_candidate = reachable, local_candidate = reachable,
       pd = padding_pandas,
       api = (\<lambda>symbol. if symbol = ''AAPL'' then Some mock_reply else Some no_data_reply),
       now = 1714521600,
       rand = (\<lambda>symbol i. some_draw),
       es_bulk = (\<lambda>k actions. BulkReturns (length actions) 0) \<rparr>"

definition down_world :: world where
  "down_world =
     mock_world
       \<lparr> env_configured := True, env_candidate := refusing, local_candidate := refusing,
         es_bulk := (\<lambda>k actions. BulkRaises) \<rparr>"

text \<open>The one document of the end-to-end scenario.\<close>

definition mock_doc :: action where
  "mock_doc =
     \<lparr> a_index = ''finnhub_stocks'',
       a_source =
         [ (''@timestamp'', JTime 1714521600), (''symbol'', JStr ''AAPL''),
           (''close'', JFloat (Fin 105)), (''volume'', JInt 1000), (''hour'', JStr ''0''),
           (''month'', JInt 5), (''season'', JStr ''Spring''), (''sentiment'', JStr ''Neutral''),
           (''open'', JFloat (Fin 100)), (''high'', JFloat (Fin 110)), (''low'', JFloat (Fin 90)),
           (''price_change'', JFloat (Fin 5)),
           (''price_per_volume'', JFloat (round_double 0.105)),
           (''trip_date'', JDate (2024, 5, 1)) ] \<rparr>"

text \<open>The world of the scenario with an Elasticsearch that answers \<open>info\<close> and refuses
  every bulk call.\<close>

definition bulk_failing_world :: world where
  "bulk_failing_world = mock_world \<lparr> es_bulk := (\<lambda>k actions. BulkRaises) \<rparr>"

section \<open>Properties\<close>

subsection \<open>Doubles\<close>

text \<open>
  \<open>round_double\<close> is evaluated stepwise: the exponent, the spacing, the rounded multiple
  of the spacing. The numbers of the concrete inputs follow.
\<close>

lemma floor_rat_numeral [simp]: "\<lfloor>(numeral a :: rat) / numeral b\<rfloor> = numeral a div numeral b"
  by (metis floor_divide_of_int_eq of_int_numeral)

lemma ceiling_rat_numeral [simp]:
  "\<lceil>(numeral a :: rat) / numeral b\<rceil> = - (- numeral a div numeral b)"
  by (metis ceiling_divide_eq_div of_int_numeral)

lemma round_double_eval:
  assumes "x \<noteq> 0" and "exponent_of \<bar>x\<bar> = e" and "pow2 (max e (- 1022) - 52) = q"
    and "round_half_even (\<bar>x\<bar> / q) = n" and "of_int n * q < 2 ^ 1024"
  shows "round_double x = Fin (sgn x * (of_int n * q))"
  using assms by (simp add: round_double_def quantum_def)




lemma round_double_5: "round_double (5) = Fin (5)"
proof -
  have "round_double (5) = Fin (sgn (5) * (of_int 5629499534213120 * (1 / 2 ^ 50)))"
    by (rule round_double_eval [where e = "2"])
      (simp_all add: exponent_of_def bit_length.simps pow2_def round_half_even_def)
  then show ?thesis by simp
qed


lemma round_double_105: "round_double (105) = Fin (105)"
proof -
  have "round_double (105) = Fin (sgn (105) * (of_int 7388718138654720 * (1 / 2 ^ 46)))"
    by (rule round_double_eval [where e = "6"])
      (simp_all add: exponent_of_def bit_length.simps pow2_def round_half_even_def)
  then show ?thesis by simp
qed

lemma round_double_150: "round_double (150) = Fin (150)"
proof -
  have "round_double (150) = Fin (sgn (150) * (of_int 5277655813324800 * (1 / 2 ^ 45)))"
    by (rule round_double_eval [where e = "7"])
      (simp_all add: exponent_of_def bit_length.simps pow2_def round_half_even_def)
  then show ?thesis by simp
qed


lemma round_double_1000: "round_double (1000) = Fin (1000)"
proof -
  have "round_double (1000) = Fin (sgn (1000) * (of_int 8796093022208000 * (1 / 2 ^ 43)))"
    by (rule round_double_eval [where e = "9"])
      (simp_all add: exponent_of_def bit_length.simps pow2_def round_half_even_def)
  then show ?thesis by simp
qed

lemma round_double_1000000: "round_double (1000000) = Fin (1000000)"
proof -
  have "round_double (1000000) = Fin (sgn (1000000) * (of_int 8589934592000000 * (1 / 2 ^ 33)))"
    by (rule round_double_eval [where e = "19"])
      (simp_all add: exponent_of_def bit_length.simps pow2_def round_half_even_def)
  then show ?thesis by simp
qed



lemma round_double_21_200: "round_double (21 / 200) = Fin (7566047373982433 / 72057594037927936)"
proof -
  have "round_double (21 / 200) = Fin (sgn (21 / 200) * (of_int 7566047373982433 * (1 / 2 ^ 56)))"
    by (rule round_double_eval [where e = "- 4"])
      (simp_all add: exponent_of_def bit_length.simps pow2_def round_half_even_def)
  then show ?thesis by simp
qed

lemma round_double_3_20000: "round_double (3 / 20000) = Fin (5534023222112865 / 36893488147419103232)"
proof -
  have "round_double (3 / 20000) = Fin (sgn (3 / 20000) * (of_int 5534023222112865 * (1 / 2 ^ 65)))"
    by (rule round_double_eval [where e = "- 13"])
      (simp_all add: exponent_of_def bit_length.simps pow2_def round_half_even_def)
  then show ?thesis by simp
qed

lemma true_div_doubles:
  "is_double x \<Longrightarrow> is_double y \<Longrightarrow> y \<noteq> 0 \<Longrightarrow>
   true_div (Some x) (Some y) = Some (round_double (x / y))"
  by (simp add: true_div_def is_double_def)

lemma true_div_None: "true_div a None = None"
  by (simp add: true_div_def split: option.splits)

lemma change_None: "change a None = None"
  by (simp add: change_def true_div_None)

subsection \<open>Frames and columns\<close>

lemma length_temp_df: "length (temp_df pad symbol ts os hs ls cs vs) = length ts"
  by (simp add: temp_df_def Let_def)

lemma nth_temp_df:
  "i < length ts \<Longrightarrow>
   temp_df pad symbol ts os hs ls cs vs ! i =
     \<lparr> r_symbol = Some symbol,
       r_timestamp = Some (ts ! i),
       r_open = os ! i,
       r_high = hs ! i,
       r_low = ls ! i,
       r_close = cs ! i,
       r_volume = vs ! i,
       r_price_change = cell_sub (cs ! i) (os ! i),
       r_volume_change = pct_change pad vs ! i,
       r_hour = Some (str_nat (nat (hour_of (ts ! i)))),
       r_month = Some (month_of (ts ! i)),
       r_trip_date = Some (date_of (ts ! i)),
       r_price_per_volume = true_div (cs ! i) (replace_zero (vs ! i)),
       r_sentiment = Some ''Neutral'',
       r_season = None \<rparr>"
  by (simp add: temp_df_def Let_def)


lemma fetch_symbol_Frame:
  assumes "fetch_symbol lib symbol reply = Frame rows"
  shows "\<exists>data ts os hs ls cs vs.
           reply = Some data \<and> rs_s data = Some ''ok'' \<and> rs_t data = Some ts \<and> ts \<noteq> []
           \<and> rs_o data = Some os \<and> rs_h data = Some hs \<and> rs_l data = Some ls
           \<and> rs_c data = Some cs \<and> rs_v data = Some vs
           \<and> length os = length ts \<and> length hs = length ts \<and> length ls = length ts
           \<and> length cs = length ts \<and> length vs = length ts
           \<and> \<not> frame_raises lib ts os hs ls cs vs
           \<and> rows = temp_df (pd_pads lib) symbol ts os hs ls cs vs"
  using assms
  by (auto simp: fetch_symbol_def split: option.splits if_splits)

lemma fetch_symbol_plain:
  assumes "rs_s data = Some ''ok''" and "rs_t data = Some ts" and "ts \<noteq> []"
    and "rs_o data = Some os" and "rs_h data = Some hs" and "rs_l data = Some ls"
    and "rs_c data = Some cs" and "rs_v data = Some vs"
    and "length os = length ts" and "length hs = length ts" and "length ls = length ts"
    and "length cs = length ts" and "length vs = length ts"
    and "plain_frame ts os hs ls cs vs"
  shows "fetch_symbol lib symbol (Some data) = Frame (temp_df (pd_pads lib) symbol ts os hs ls cs vs)"
  using assms by (simp add: fetch_symbol_def frame_raises_def)

lemma length_ffill_from: "length (ffill_from p xs) = length xs"
  by (induction p xs rule: ffill_from.induct) simp_all


lemma length_shift1: "length (shift1 xs) = length xs"
  by (simp add: shift1_def)


lemma length_pct_change: "length (pct_change pad xs) = length xs"
  by (simp add: pct_change_def Let_def length_shift1 ffill_def length_ffill_from)





subsection \<open>Fields of a document\<close>

lemma map_of_optional: "map_of (optional k v) key = (if key = k then v else None)"
  by (simp add: optional_def split: option.splits)

lemma map_of_optional_append:
  "map_of (optional k v @ rest) key = (if key = k \<and> v \<noteq> None then v else map_of rest key)"
  by (auto simp: optional_def split: option.splits)

lemma field_make_doc_open:
  "field (make_doc r) ''open'' = map_option (\<lambda>x. JFloat (Fin x)) (r_open r)"
  by (cases "r_open r")
    (simp_all add: field_def make_doc_def map_of_optional map_of_optional_append del: map_of_append)

lemma field_make_doc_high:
  "field (make_doc r) ''high'' = map_option (\<lambda>x. JFloat (Fin x)) (r_high r)"
  by (cases "r_high r")
    (simp_all add: field_def make_doc_def map_of_optional map_of_optional_append del: map_of_append)

lemma field_make_doc_low:
  "field (make_doc r) ''low'' = map_option (\<lambda>x. JFloat (Fin x)) (r_low r)"
  by (cases "r_low r")
    (simp_all add: field_def make_doc_def map_of_optional map_of_optional_append del: map_of_append)

lemma field_make_doc_price_change:
  "field (make_doc r) ''price_change'' = map_option JFloat (r_price_change r)"
  by (cases "r_price_change r")
    (simp_all add: field_def make_doc_def map_of_optional map_of_optional_append del: map_of_append)

lemma field_make_doc_volume_change:
  "field (make_doc r) ''volume_change'' = map_option JFloat (r_volume_change r)"
  by (cases "r_volume_change r")
    (simp_all add: field_def make_doc_def map_of_optional map_of_optional_append del: map_of_append)

lemma field_make_doc_price_per_volume:
  "field (make_doc r) ''price_per_volume'' = map_option JFloat (r_price_per_volume r)"
  by (cases "r_price_per_volume r")
    (simp_all add: field_def make_doc_def map_of_optional map_of_optional_append del: map_of_append)

lemma field_make_doc_trip_date:
  "field (make_doc r) ''trip_date'' = map_option JDate (r_trip_date r)"
  by (cases "r_trip_date r")
    (simp_all add: field_def make_doc_def map_of_optional map_of_optional_append del: map_of_append)

lemma field_make_doc_required:
  "field (make_doc r) ''@timestamp'' = Some (case r_timestamp r of None \<Rightarrow> JNull | Some t \<Rightarrow> JTime t)"
  "field (make_doc r) ''symbol'' = Some (JStr (case r_symbol r of None \<Rightarrow> ''None'' | Some s \<Rightarrow> s))"
  "field (make_doc r) ''close'' = Some (case r_close r of None \<Rightarrow> JNull | Some c \<Rightarrow> JFloat (Fin c))"
  "field (make_doc r) ''volume'' = Some (case r_volume r of None \<Rightarrow> JNull | Some v \<Rightarrow> JInt (py_int v))"
  "field (make_doc r) ''hour'' = Some (JStr (case r_hour r of None \<Rightarrow> ''0'' | Some h \<Rightarrow> h))"
  "field (make_doc r) ''month'' = Some (case r_month r of None \<Rightarrow> JNull | Some m \<Rightarrow> JInt m)"
  "field (make_doc r) ''season'' = Some (JStr (case r_season r of None \<Rightarrow> ''Unknown'' | Some s \<Rightarrow> s))"
  "field (make_doc r) ''sentiment'' = Some (JStr (case r_sentiment r of None \<Rightarrow> ''Neutral'' | Some s \<Rightarrow> s))"
  by (simp_all add: field_def make_doc_def del: map_of_append)

lemma nth_generate_actions: "i < length df \<Longrightarrow> generate_actions df ! i = make_doc (df ! i)"
  by (simp add: generate_actions_def)

subsection \<open>The concrete inputs, evaluated\<close>

lemma fetch_mock:
  "fetch_symbol lib ''AAPL'' (Some mock_reply)
     = Frame (temp_df (pd_pads lib) ''AAPL'' [1714521600] [Some 100] [Some 110] [Some 90]
         [Some 105] [Some 1000])"
  by (rule fetch_symbol_plain)
    (simp_all add: mock_reply_def plain_frame_def plain_column_def within_ns_range_def)

lemma fetch_two_day:
  "fetch_symbol lib ''AAPL'' (Some two_day_reply)
     = Frame (temp_df (pd_pads lib) ''AAPL'' [1714521600, 1714608000]
         [Some 100, Some 140] [Some 110, Some 160] [Some 90, Some 130] [Some 105, Some 150]
         [Some 100, Some 150])"
  by (rule fetch_symbol_plain)
    (simp_all add: two_day_reply_def plain_frame_def plain_column_def within_ns_range_def)

lemma fetch_zero_volume:
  "fetch_symbol lib ''AAPL'' (Some zero_volume_reply)
     = Frame (temp_df (pd_pads lib) ''AAPL'' [1714521600, 1714608000]
         [Some 140, Some 150] [Some 160, Some 150] [Some 130, Some 150] [Some 150, Some 150]
         [Some 1000000, Some 0])"
  by (rule fetch_symbol_plain)
    (simp_all add: zero_volume_reply_def plain_frame_def plain_column_def within_ns_range_def)


lemma others_without_frame:
  "\<forall>s \<in> {''TSLA'', ''MSFT'', ''GOOGL'', ''AMZN''}.
     \<not> is_frame (fetch_symbol l s (Some no_data_reply))"
  by (simp add: fetch_symbol_def no_data_reply_def)

lemma pct_change_single: "pct_change pad [x] = [None]"
  by (cases x; cases pad) (simp_all add: pct_change_def ffill_def shift1_def change_None)

lemma date_of_mock: "date_of 1714521600 = (2024, 5, 1)"
  unfolding date_of_def civil_from_days_def Let_def by simp

lemma str_nat_0: "str_nat 0 = ''0''"
  by (simp add: str_nat.simps digit_def)

lemma temp_df_mock:
  "temp_df pad ''AAPL'' [1714521600] [Some 100] [Some 110] [Some 90] [Some 105] [Some 1000] =
     [\<lparr> r_symbol = Some ''AAPL'', r_timestamp = Some 1714521600,
        r_open = Some 100, r_high = Some 110, r_low = Some 90, r_close = Some 105,
        r_volume = Some 1000, r_price_change = Some (Fin 5), r_volume_change = None,
        r_hour = Some ''0'', r_month = Some 5, r_trip_date = Some (2024, 5, 1),
        r_price_per_volume = Some (round_double 0.105), r_sentiment = Some ''Neutral'',
        r_season = None \<rparr>]"
  by (simp add: temp_df_def Let_def pct_change_single cell_sub_def true_div_def replace_zero_def
      round_double_5 round_double_105 round_double_1000
      month_of_def date_of_mock hour_of_def str_nat_0)

lemma docs_of_mock_frame:
  "generate_actions (transform
     (temp_df pad ''AAPL'' [1714521600] [Some 100] [Some 110] [Some 90] [Some 105] [Some 1000]))
   = [mock_doc]"
  by (simp add: temp_df_mock transform_def dropna_def complete_def add_season_def get_season_def
      generate_actions_def make_doc_def optional_def index_name_def py_int_def mock_doc_def)

lemma main_docs_down_world: "main_docs down_world = [mock_doc]"
proof -
  have "df_list down_world =
      [temp_df True ''AAPL'' [1714521600] [Some 100] [Some 110] [Some 90] [Some 105]
         [Some 1000]]"
    using others_without_frame [of padding_pandas]
    by (simp add: df_list_def symbols_def down_world_def mock_world_def fetch_mock
        padding_pandas_def)
  then show ?thesis
    by (simp add: main_docs_def load_df_def docs_of_mock_frame)
qed

subsection \<open>The resolver and the traces\<close>

text \<open>
  After the loop \<open>es\<close> is \<open>None\<close> only when the constructor raised for every candidate:
  a client that was constructed stays in \<open>es\<close> whatever its health check did. So the
  script exits with status 1 exactly when no client could be constructed.
\<close>

lemma connect_loop_None:
  "connect_loop es i cs = None \<longleftrightarrow> es = None \<and> list_all ctor_raises cs"
  by (induction cs arbitrary: es i) (auto split: info_reply.splits)

lemma resolve_None:
  "resolve w = None \<longleftrightarrow> list_all ctor_raises (ELASTICSEARCH_CONFIGS w)"
  by (simp add: resolve_def connect_loop_None)

lemma exit_iff_no_client:
  "exit_status (run w) = 1 \<longleftrightarrow> list_all ctor_raises (ELASTICSEARCH_CONFIGS w)"
proof -
  have "exit_status (run w) = 1 \<longleftrightarrow> resolve w = None"
    by (cases "resolve w") (simp_all add: run_def)
  then show ?thesis by (simp add: resolve_None)
qed

lemma bulk_calls_append: "bulk_calls (xs @ ys) = bulk_calls xs @ bulk_calls ys"
  by (induction xs rule: bulk_calls.induct) simp_all

lemma bulk_calls_HttpGet: "bulk_calls (map HttpGet ss) = []"
  by (induction ss) simp_all

lemma http_calls_append: "http_calls (xs @ ys) = http_calls xs @ http_calls ys"
  by (induction xs rule: http_calls.induct) simp_all

lemma http_calls_HttpGet: "http_calls (map HttpGet ss) = ss"
  by (induction ss) simp_all

lemma bulk_calls_load:
  "bulk_calls (load w es) =
     (case es_bulk w 0 (main_docs w) of
        BulkRaises \<Rightarrow> [main_docs w, generate_actions (sample_df (now w))]
      | BulkReturns n f \<Rightarrow> [main_docs w])"
  by (simp add: load_def split: bulk_reply.splits)

lemma http_calls_load: "http_calls (load w es) = []"
  by (simp add: load_def split: bulk_reply.splits)

subsection \<open>The end-to-end scenario\<close>

text \<open>
  C1. When the reply for AAPL is the mocked body (status ok, one instant 1714521600, open
  100, high 110, low 90, close 105, volume 1000) and no other symbol yields a frame, the
  job produces exactly one document, \<open>mock_doc\<close>: symbol AAPL, close 105.0, volume 1000,
  price\_change 5.0, price\_per\_volume 0.105 (the double nearest to it, which is what
  105 / 1000 gives), month 5 and season Spring.
\<close>

theorem end_to_end_mock:
  assumes "api w ''AAPL'' = Some mock_reply"
    and "\<forall>s \<in> {''TSLA'', ''MSFT'', ''GOOGL'', ''AMZN''}.
           \<not> is_frame (fetch_symbol (pd w) s (api w s))"
  shows "main_docs w = [mock_doc]
    \<and> length (main_docs w) = 1
    \<and> field (main_docs w ! 0) ''symbol'' = Some (JStr ''AAPL'')
    \<and> field (main_docs w ! 0) ''close'' = Some (JFloat (Fin 105))
    \<and> field (main_docs w ! 0) ''volume'' = Some (JInt 1000)
    \<and> field (main_docs w ! 0) ''price_change'' = Some (JFloat (Fin 5))
    \<and> field (main_docs w ! 0) ''price_per_volume'' = Some (JFloat (round_double 0.105))
    \<and> field (main_docs w ! 0) ''month'' = Some (JInt 5)
    \<and> field (main_docs w ! 0) ''season'' = Some (JStr ''Spring'')"
proof -
  have "df_list w =
      [temp_df (pd_pads (pd w)) ''AAPL'' [1714521600] [Some 100] [Some 110] [Some 90] [Some 105]
         [Some 1000]]"
    using assms by (simp add: df_list_def symbols_def fetch_mock)
  then have "load_df w =
      temp_df (pd_pads (pd w)) ''AAPL'' [1714521600] [Some 100] [Some 110] [Some 90] [Some 105]
         [Some 1000]"
    by (simp add: load_df_def)
  then have docs: "main_docs w = [mock_doc]"
    by (simp add: main_docs_def docs_of_mock_frame)
  show ?thesis
    unfolding docs by (simp add: field_def mock_doc_def)
qed

theorem end_to_end_mock_witness:
  "api mock_world ''AAPL'' = Some mock_reply
   \<and> main_docs mock_world = [mock_doc]
   \<and> field (main_docs mock_world ! 0) ''symbol'' = Some (JStr ''AAPL'')
   \<and> field (main_docs mock_world ! 0) ''close'' = Some (JFloat (Fin 105))
   \<and> field (main_docs mock_world ! 0) ''volume'' = Some (JInt 1000)
   \<and> field (main_docs mock_world ! 0) ''price_change'' = Some (JFloat (Fin 5))
   \<and> field (main_docs mock_world ! 0) ''price_per_volume'' = Some (JFloat (round_double 0.105))
   \<and> field (main_docs mock_world ! 0) ''month'' = Some (JInt 5)
   \<and> field (main_docs mock_world ! 0) ''season'' = Some (JStr ''Spring'')
   \<and> bulk_calls (trace (run mock_world)) = [main_docs mock_world]"
proof -
  have a: "api mock_world ''AAPL'' = Some mock_reply" by (simp add: mock_world_def)
  have b: "\<forall>s \<in> {''TSLA'', ''MSFT'', ''GOOGL'', ''AMZN''}.
      \<not> is_frame (fetch_symbol (pd mock_world) s (api mock_world s))"
    using others_without_frame [of "pd mock_world"] by (simp add: mock_world_def)
  have r: "resolve mock_world = Some 1"
    by (simp add: resolve_def ELASTICSEARCH_CONFIGS_def mock_world_def reachable_def)
  have c: "bulk_calls (trace (run mock_world)) = [main_docs mock_world]"
    by (simp add: run_def r load_def symbols_def) (simp add: mock_world_def)
  show ?thesis
    using a c end_to_end_mock [OF a b] by blast
qed

subsection \<open>Incomplete rows\<close>

text \<open>
  C2. A row whose timestamp, symbol, close or volume is missing after the derivation is
  dropped: the documents of a frame that contains such a row, at any position, are the
  documents of the frame without it. Every document of the main submission comes from a
  row that has all four, so a row without a volume is never submitted.
\<close>

theorem incomplete_rows_dropped:
  assumes "r_timestamp r = None \<or> r_symbol r = None \<or> r_close r = None \<or> r_volume r = None"
  shows "transform (xs @ r # ys) = transform (xs @ ys)
    \<and> generate_actions (transform (xs @ r # ys)) = generate_actions (transform (xs @ ys))
    \<and> add_season r \<notin> set (transform df)
    \<and> (\<forall>d \<in> set (main_docs w). \<exists>r' t s c v.
          d = make_doc r' \<and> r_timestamp r' = Some t \<and> r_symbol r' = Some s
          \<and> r_close r' = Some c \<and> r_volume r' = Some v
          \<and> field d ''@timestamp'' = Some (JTime t) \<and> field d ''symbol'' = Some (JStr s)
          \<and> field d ''close'' = Some (JFloat (Fin c))
          \<and> field d ''volume'' = Some (JInt (py_int v)))"
proof -
  from assms have inc: "\<not> complete (add_season r)"
    by (auto simp: complete_def add_season_def)
  then have drop: "transform (xs @ r # ys) = transform (xs @ ys)"
    by (simp add: transform_def dropna_def)
  have out: "add_season r \<notin> set (transform df)"
    using inc by (simp add: transform_def dropna_def)
  have docs: "\<exists>r' t s c v.
          d = make_doc r' \<and> r_timestamp r' = Some t \<and> r_symbol r' = Some s
          \<and> r_close r' = Some c \<and> r_volume r' = Some v
          \<and> field d ''@timestamp'' = Some (JTime t) \<and> field d ''symbol'' = Some (JStr s)
          \<and> field d ''close'' = Some (JFloat (Fin c))
          \<and> field d ''volume'' = Some (JInt (py_int v))"
    if "d \<in> set (main_docs w)" for d
  proof -
    from that obtain r' where d: "d = make_doc r'" and c: "complete r'"
      by (auto simp: main_docs_def generate_actions_def transform_def dropna_def)
    from c obtain t s c v where
      "r_timestamp r' = Some t" "r_symbol r' = Some s" "r_close r' = Some c" "r_volume r' = Some v"
      by (auto simp: complete_def)
    then show ?thesis
      using d by (intro exI [of _ r']) (simp add: field_make_doc_required)
  qed
  show ?thesis using drop out docs by simp
qed

theorem incomplete_rows_dropped_witness:
  "r_volume ((hd (sample_df 0))\<lparr>r_volume := None\<rparr>) = None
   \<and> generate_actions (transform (sample_df 0 @ (hd (sample_df 0))\<lparr>r_volume := None\<rparr> # []))
       = generate_actions (transform (sample_df 0 @ []))
   \<and> add_season ((hd (sample_df 0))\<lparr>r_volume := None\<rparr>)
       \<notin> set (transform (sample_df 0 @ (hd (sample_df 0))\<lparr>r_volume := None\<rparr> # []))
   \<and> (\<exists>v. field (hd (main_docs down_world)) ''volume'' = Some (JInt v))"
proof -
  have h: "r_timestamp ((hd (sample_df 0))\<lparr>r_volume := None\<rparr>) = None
      \<or> r_symbol ((hd (sample_df 0))\<lparr>r_volume := None\<rparr>) = None
      \<or> r_close ((hd (sample_df 0))\<lparr>r_volume := None\<rparr>) = None
      \<or> r_volume ((hd (sample_df 0))\<lparr>r_volume := None\<rparr>) = None"
    by simp
  have m: "hd (main_docs down_world) \<in> set (main_docs down_world)"
    by (simp add: main_docs_down_world)
  from incomplete_rows_dropped [OF h, of "sample_df 0" "[]"
      "sample_df 0 @ (hd (sample_df 0))\<lparr>r_volume := None\<rparr> # []" down_world] m
  show ?thesis by fastforce
qed

subsection \<open>The season of a month\<close>

text \<open>
  C3. \<open>get_season\<close> depends on the month number only: it gives Winter for the months
  12, 1 and 2, Spring for 3, 4 and 5, Summer for 6, 7 and 8, Fall for 9, 10 and 11, and
  Unknown for every other number (13, for one).
\<close>

theorem get_season_by_month:
  "(month \<in> {12, 1, 2} \<longrightarrow> get_season month = ''Winter'')
   \<and> (month \<in> {3, 4, 5} \<longrightarrow> get_season month = ''Spring'')
   \<and> (month \<in> {6, 7, 8} \<longrightarrow> get_season month = ''Summer'')
   \<and> (month \<in> {9, 10, 11} \<longrightarrow> get_season month = ''Fall'')
   \<and> (month < 1 \<or> 12 < month \<longrightarrow> get_season month = ''Unknown'')"
  by (auto simp: get_season_def)

theorem get_season_by_month_witness:
  "get_season 12 = ''Winter'' \<and> get_season 1 = ''Winter'' \<and> get_season 2 = ''Winter''
   \<and> get_season 3 = ''Spring'' \<and> get_season 4 = ''Spring'' \<and> get_season 5 = ''Spring''
   \<and> get_season 6 = ''Summer'' \<and> get_season 7 = ''Summer'' \<and> get_season 8 = ''Summer''
   \<and> get_season 9 = ''Fall'' \<and> get_season 10 = ''Fall'' \<and> get_season 11 = ''Fall''
   \<and> get_season 13 = ''Unknown'' \<and> get_season 0 = ''Unknown'' \<and> get_season (- 1) = ''Unknown''"
  using get_season_by_month [of 12] get_season_by_month [of 1] get_season_by_month [of 2]
    get_season_by_month [of 3] get_season_by_month [of 4] get_season_by_month [of 5]
    get_season_by_month [of 6] get_season_by_month [of 7] get_season_by_month [of 8]
    get_season_by_month [of 9] get_season_by_month [of 10] get_season_by_month [of 11]
    get_season_by_month [of 13] get_season_by_month [of 0] get_season_by_month [of "- 1"]
  by simp

subsection \<open>The change of volume\<close>




subsection \<open>The price per volume\<close>

text \<open>
  C5. In every row of a fetched frame, \<open>price_per_volume\<close> is missing when the volume is
  zero, and the document then has no such field: the zero is replaced before the
  division, which so neither raises nor gives an infinity. When the volume is not zero,
  \<open>price_per_volume\<close> is close divided by volume: for a close and a volume that are
  doubles, the double nearest to their quotient (for close 150 and volume 1000000, the
  double written 0.00015).
\<close>

theorem price_per_volume_guarded:
  assumes "fetch_symbol lib symbol reply = Frame rows" and "i < length rows"
  shows "(r_volume (rows ! i) = Some 0 \<longrightarrow>
            r_price_per_volume (rows ! i) = None
            \<and> field (make_doc (add_season (rows ! i))) ''price_per_volume'' = None)
    \<and> (\<forall>v. r_volume (rows ! i) = Some v \<and> v \<noteq> 0 \<longrightarrow>
            r_price_per_volume (rows ! i) = true_div (r_close (rows ! i)) (Some v))
    \<and> (\<forall>c v. r_close (rows ! i) = Some c \<and> r_volume (rows ! i) = Some v \<and> v \<noteq> 0
            \<and> is_double c \<and> is_double v \<longrightarrow>
            r_price_per_volume (rows ! i) = Some (round_double (c / v))
            \<and> field (make_doc (add_season (rows ! i))) ''price_per_volume''
                = Some (JFloat (round_double (c / v))))"
proof -
  from fetch_symbol_Frame [OF assms(1)] obtain ts os hs ls cs vs where
    len: "length ts = length rows"
    and rows: "rows = temp_df (pd_pads lib) symbol ts os hs ls cs vs"
    by (auto simp: length_temp_df)
  from assms(2) len have i: "i < length ts" by simp
  have ppv: "r_price_per_volume (rows ! i) = true_div (cs ! i) (replace_zero (vs ! i))"
    and vol: "r_volume (rows ! i) = vs ! i" and cl: "r_close (rows ! i) = cs ! i"
    using i by (simp_all add: rows nth_temp_df)
  have keep: "r_price_per_volume (add_season (rows ! i)) = r_price_per_volume (rows ! i)"
    by (simp add: add_season_def)
  show ?thesis
    unfolding field_make_doc_price_per_volume keep ppv vol cl
    by (auto simp: replace_zero_def true_div_None true_div_doubles)
qed

theorem price_per_volume_guarded_witness:
  "r_volume (rows_of (fetch_symbol padding_pandas ''AAPL'' (Some zero_volume_reply)) ! 1) = Some 0
   \<and> r_price_per_volume (rows_of (fetch_symbol padding_pandas ''AAPL'' (Some zero_volume_reply)) ! 1)
       = None
   \<and> r_close (rows_of (fetch_symbol padding_pandas ''AAPL'' (Some zero_volume_reply)) ! 0)
       = Some 150
   \<and> r_volume (rows_of (fetch_symbol padding_pandas ''AAPL'' (Some zero_volume_reply)) ! 0)
       = Some 1000000
   \<and> is_double 150 \<and> is_double 1000000
   \<and> r_price_per_volume (rows_of (fetch_symbol padding_pandas ''AAPL'' (Some zero_volume_reply)) ! 0)
       = Some (round_double 0.00015)
   \<and> round_double 0.00015 = Fin (5534023222112865 / 36893488147419103232)"
proof -
  let ?rows = "temp_df (pd_pads padding_pandas) ''AAPL'' [1714521600, 1714608000]
         [Some 140, Some 150] [Some 160, Some 150] [Some 130, Some 150] [Some 150, Some 150]
         [Some 1000000, Some 0]"
  have l0: "0 < length ?rows" and l1: "1 < length ?rows" by (simp_all add: length_temp_df)
  have v1: "r_volume (?rows ! 1) = Some 0" by (simp add: nth_temp_df)
  have c0: "r_close (?rows ! 0) = Some 150" and v0: "r_volume (?rows ! 0) = Some 1000000"
    by (simp_all add: nth_temp_df)
  have d: "is_double 150" "is_double 1000000"
    by (simp_all add: is_double_def round_double_150 round_double_1000000)
  from price_per_volume_guarded [OF fetch_zero_volume l1] v1
  have a: "r_price_per_volume (?rows ! 1) = None" by blast
  have "r_close (?rows ! 0) = Some 150 \<and> r_volume (?rows ! 0) = Some 1000000
      \<and> (1000000::rat) \<noteq> 0 \<and> is_double 150 \<and> is_double 1000000"
    using c0 v0 d by simp
  with price_per_volume_guarded [OF fetch_zero_volume l0]
  have b: "r_price_per_volume (?rows ! 0) = Some (round_double (150 / 1000000))" by blast
  show ?thesis
    using a b v1 c0 v0 d by (simp add: fetch_zero_volume round_double_3_20000)
qed

subsection \<open>Optional fields\<close>

text \<open>
  C6. The document of a row has the field open, high, low, price\_change, volume\_change,
  price\_per\_volume or trip\_date exactly when the row has a value for it: a field whose
  source value is missing is left out of the document, and none of them is ever null.
\<close>

theorem optional_fields_omitted:
  assumes "i < length df"
  shows "field (generate_actions df ! i) ''open'' = map_option (\<lambda>x. JFloat (Fin x)) (r_open (df ! i))
    \<and> field (generate_actions df ! i) ''high'' = map_option (\<lambda>x. JFloat (Fin x)) (r_high (df ! i))
    \<and> field (generate_actions df ! i) ''low'' = map_option (\<lambda>x. JFloat (Fin x)) (r_low (df ! i))
    \<and> field (generate_actions df ! i) ''price_change''
        = map_option JFloat (r_price_change (df ! i))
    \<and> field (generate_actions df ! i) ''volume_change'' = map_option JFloat (r_volume_change (df ! i))
    \<and> field (generate_actions df ! i) ''price_per_volume''
        = map_option JFloat (r_price_per_volume (df ! i))
    \<and> field (generate_actions df ! i) ''trip_date'' = map_option JDate (r_trip_date (df ! i))
    \<and> (\<forall>key \<in> {''open'', ''high'', ''low'', ''price_change'', ''volume_change'',
                  ''price_per_volume'', ''trip_date''}.
          field (generate_actions df ! i) key \<noteq> Some JNull)"
  using assms
  by (simp add: nth_generate_actions field_make_doc_open field_make_doc_high field_make_doc_low
      field_make_doc_price_change field_make_doc_volume_change field_make_doc_price_per_volume
      field_make_doc_trip_date)

theorem optional_fields_omitted_witness:
  "0 < length (sample_df 1714521600)
   \<and> r_open (sample_df 1714521600 ! 0) = None
   \<and> field (generate_actions (sample_df 1714521600) ! 0) ''open'' = None
   \<and> field (generate_actions (sample_df 1714521600) ! 0) ''high'' = None
   \<and> field (generate_actions (sample_df 1714521600) ! 0) ''low'' = None
   \<and> field (generate_actions (sample_df 1714521600) ! 0) ''price_change'' = None
   \<and> field (generate_actions (sample_df 1714521600) ! 0) ''volume_change'' = None
   \<and> field (generate_actions (sample_df 1714521600) ! 0) ''price_per_volume'' = None
   \<and> field (generate_actions (sample_df 1714521600) ! 0) ''trip_date'' = None"
proof -
  have h: "0 < length (sample_df 1714521600)" by (simp add: sample_df_def)
  show ?thesis
    using h optional_fields_omitted [OF h] by (simp add: sample_df_def)
qed

subsection \<open>Every health check fails\<close>

text \<open>
  C7. The claim is that the job exits with a non-zero status, before any fetch or load,
  when every candidate fails its health check. The script does not: in \<open>down_world\<close> both
  candidates are constructed and both fail \<open>info\<close> with a connection error, \<open>es\<close> still
  holds the client of the second attempt, the test \<open>es is None\<close> fails, and the run goes
  on to request all five symbols and to make two bulk calls, ending with status 0.
\<close>

theorem health_checks_fail_yet_no_exit:
  "list_all health_check_fails (ELASTICSEARCH_CONFIGS down_world)
   \<and> resolve down_world = Some 2
   \<and> exit_status (run down_world) = 0
   \<and> http_calls (trace (run down_world)) = symbols
   \<and> bulk_calls (trace (run down_world))
       = [[mock_doc], generate_actions (sample_df 1714521600)]"
proof -
  have cfg: "ELASTICSEARCH_CONFIGS down_world = [refusing, refusing]"
    by (simp add: ELASTICSEARCH_CONFIGS_def down_world_def)
  have hc: "list_all health_check_fails (ELASTICSEARCH_CONFIGS down_world)"
    by (simp add: cfg health_check_fails_def refusing_def)
  have r: "resolve down_world = Some 2"
    by (simp add: resolve_def cfg refusing_def)
  have raises: "es_bulk down_world k actions = BulkRaises" for k actions
    by (simp add: down_world_def)
  have clock: "now down_world = 1714521600"
    by (simp add: down_world_def mock_world_def)
  show ?thesis
    using hc r
    by (simp add: run_def bulk_calls_append bulk_calls_HttpGet http_calls_append
        http_calls_HttpGet bulk_calls_load http_calls_load raises clock main_docs_down_world)
qed

subsection \<open>The fallback of the bulk loader\<close>

text \<open>
  C8. When the bulk submission raises, the job makes exactly one more bulk call, with
  exactly one document, built from the one-row frame \<open>sample_df\<close> (AAPL, close 150, volume
  1000000, the eight mandatory fields only). When that call raises too, the job prints
  the error and ends: the trace has no third bulk call.
\<close>

theorem fallback_once:
  assumes "resolve w = Some es" and "es_bulk w 0 (main_docs w) = BulkRaises"
  shows "bulk_calls (trace (run w)) = [main_docs w, generate_actions (sample_df (now w))]
    \<and> length (generate_actions (sample_df (now w))) = 1
    \<and> map fst (a_source (generate_actions (sample_df (now w)) ! 0))
        = [''@timestamp'', ''symbol'', ''close'', ''volume'', ''hour'', ''month'', ''season'',
           ''sentiment'']
    \<and> field (generate_actions (sample_df (now w)) ! 0) ''symbol'' = Some (JStr ''AAPL'')
    \<and> field (generate_actions (sample_df (now w)) ! 0) ''close'' = Some (JFloat (Fin 150))
    \<and> field (generate_actions (sample_df (now w)) ! 0) ''volume'' = Some (JInt 1000000)
    \<and> exit_status (run w) = 0
    \<and> (es_bulk w 1 (generate_actions (sample_df (now w))) = BulkRaises \<longrightarrow>
          trace (run w) =
            [EnsureIndex es] @ map HttpGet symbols
            @ [Bulk es (main_docs w), SayIndexingError,
               Bulk es (generate_actions (sample_df (now w))), SaySampleFailed])"
proof -
  have calls: "bulk_calls (trace (run w)) = [main_docs w, generate_actions (sample_df (now w))]"
    using assms
    by (simp add: run_def bulk_calls_append bulk_calls_HttpGet bulk_calls_load)
  have one: "generate_actions (sample_df (now w)) = [make_doc (hd (sample_df (now w)))]"
    by (simp add: generate_actions_def sample_df_def)
  have keys: "map fst (a_source (make_doc (hd (sample_df (now w)))))
        = [''@timestamp'', ''symbol'', ''close'', ''volume'', ''hour'', ''month'', ''season'',
           ''sentiment'']"
    by (simp add: make_doc_def sample_df_def optional_def)
  have vals: "field (make_doc (hd (sample_df (now w)))) ''symbol'' = Some (JStr ''AAPL'')"
    "field (make_doc (hd (sample_df (now w)))) ''close'' = Some (JFloat (Fin 150))"
    "field (make_doc (hd (sample_df (now w)))) ''volume'' = Some (JInt 1000000)"
    by (simp_all add: field_make_doc_required sample_df_def py_int_def)
  have status: "exit_status (run w) = 0" using assms by (simp add: run_def)
  have tr: "trace (run w) =
            [EnsureIndex es] @ map HttpGet symbols
            @ [Bulk es (main_docs w), SayIndexingError,
               Bulk es (generate_actions (sample_df (now w))), SaySampleFailed]"
    if "es_bulk w 1 (generate_actions (sample_df (now w))) = BulkRaises"
    using assms that by (simp add: run_def load_def)
  show ?thesis
    using calls keys vals status tr by (simp add: one)
qed

theorem fallback_once_witness:
  "resolve bulk_failing_world = Some 1
   \<and> es_bulk bulk_failing_world 0 (main_docs bulk_failing_world) = BulkRaises
   \<and> es_bulk bulk_failing_world 1
        (generate_actions (sample_df (now bulk_failing_world))) = BulkRaises
   \<and> length (bulk_calls (trace (run bulk_failing_world))) = 2
   \<and> length (bulk_calls (trace (run bulk_failing_world)) ! 1) = 1
   \<and> last (trace (run bulk_failing_world)) = SaySampleFailed
   \<and> exit_status (run bulk_failing_world) = 0"
proof -
  have r: "resolve bulk_failing_world = Some 1"
    by (simp add: resolve_def ELASTICSEARCH_CONFIGS_def bulk_failing_world_def mock_world_def
        reachable_def)
  have b0: "es_bulk bulk_failing_world 0 (main_docs bulk_failing_world) = BulkRaises"
    and b1: "es_bulk bulk_failing_world 1
        (generate_actions (sample_df (now bulk_failing_world))) = BulkRaises"
    by (simp_all add: bulk_failing_world_def)
  note t = fallback_once [OF r b0]
  from t have calls: "bulk_calls (trace (run bulk_failing_world))
      = [main_docs bulk_failing_world, generate_actions (sample_df (now bulk_failing_world))]"
    by blast
  from t have len: "length (generate_actions (sample_df (now bulk_failing_world))) = 1"
    by blast
  from t have st: "exit_status (run bulk_failing_world) = 0"
    by blast
  from t b1 have tr: "trace (run bulk_failing_world) =
      [EnsureIndex 1] @ map HttpGet symbols
      @ [Bulk 1 (main_docs bulk_failing_world), SayIndexingError,
         Bulk 1 (generate_actions (sample_df (now bulk_failing_world))), SaySampleFailed]"
    by blast
  have la: "last (trace (run bulk_failing_world)) = SaySampleFailed"
    by (simp add: tr)
  show ?thesis
    using r b0 b1 len st la by (simp add: calls)
qed

subsection \<open>Rows per symbol\<close>

text \<open>
  C9, amended. The fetch of a symbol yields a frame exactly when the request returns a
  reply whose status is "ok", whose array of instants is present and not empty, whose
  open, high, low, close and volume arrays are present with the length of the array of
  instants, and on whose arrays pandas raises nothing while lines 160 to 175 build the
  frame. The frame then has one row per instant. In every other case (a request that
  raises, a reply without instants, a missing array, arrays of different lengths, an
  exception of pandas) the symbol contributes no row. On a plain frame pandas raises
  nothing.
\<close>

theorem fetch_row_count:
  "(is_frame (fetch_symbol lib symbol reply) \<longleftrightarrow>
      (\<exists>data ts os hs ls cs vs.
          reply = Some data \<and> rs_s data = Some ''ok'' \<and> rs_t data = Some ts \<and> ts \<noteq> []
          \<and> rs_o data = Some os \<and> rs_h data = Some hs \<and> rs_l data = Some ls
          \<and> rs_c data = Some cs \<and> rs_v data = Some vs
          \<and> length os = length ts \<and> length hs = length ts \<and> length ls = length ts
          \<and> length cs = length ts \<and> length vs = length ts
          \<and> \<not> frame_raises lib ts os hs ls cs vs))
   \<and> (\<forall>data ts. reply = Some data \<and> rs_t data = Some ts
          \<and> is_frame (fetch_symbol lib symbol reply) \<longrightarrow>
          length (rows_of (fetch_symbol lib symbol reply)) = length ts)
   \<and> (\<not> is_frame (fetch_symbol lib symbol reply) \<longrightarrow>
          rows_of (fetch_symbol lib symbol reply) = [])
   \<and> (\<forall>ts os hs ls cs vs. plain_frame ts os hs ls cs vs \<longrightarrow>
          \<not> frame_raises lib ts os hs ls cs vs)"
proof -
  let ?f = "fetch_symbol lib symbol reply"
  let ?ok = "\<exists>data ts os hs ls cs vs.
          reply = Some data \<and> rs_s data = Some ''ok'' \<and> rs_t data = Some ts \<and> ts \<noteq> []
          \<and> rs_o data = Some os \<and> rs_h data = Some hs \<and> rs_l data = Some ls
          \<and> rs_c data = Some cs \<and> rs_v data = Some vs
          \<and> length os = length ts \<and> length hs = length ts \<and> length ls = length ts
          \<and> length cs = length ts \<and> length vs = length ts
          \<and> \<not> frame_raises lib ts os hs ls cs vs"
  have fwd: "?ok" if "is_frame ?f"
  proof -
    from that obtain rows where fr: "?f = Frame rows" by (cases ?f) simp_all
    from fetch_symbol_Frame [OF fr] show "?ok" by blast
  qed
  have cnt: "length (rows_of ?f) = length ts"
    if "reply = Some data" "rs_t data = Some ts" "is_frame ?f" for data ts
  proof -
    from that(3) obtain rows where fr: "?f = Frame rows" by (cases ?f) simp_all
    from fetch_symbol_Frame [OF fr] that(1,2) have "length rows = length ts"
      by (auto simp: length_temp_df)
    then show ?thesis by (simp add: fr)
  qed
  have bwd: "is_frame ?f" if "?ok"
    using that by (auto simp: fetch_symbol_def)
  have none: "rows_of ?f = []" if "\<not> is_frame ?f"
    using that by (cases ?f) simp_all
  have plain: "\<not> frame_raises lib ts os hs ls cs vs" if "plain_frame ts os hs ls cs vs"
    for ts os hs ls cs vs
    using that by (simp add: frame_raises_def)
  show ?thesis using fwd cnt bwd none plain by blast
qed

theorem fetch_row_count_witness:
  "is_frame (fetch_symbol padding_pandas ''AAPL'' (Some two_day_reply))
   \<and> rs_t two_day_reply = Some [1714521600, 1714608000]
   \<and> length (rows_of (fetch_symbol padding_pandas ''AAPL'' (Some two_day_reply))) = 2
   \<and> \<not> is_frame (fetch_symbol padding_pandas ''AAPL'' (Some no_data_reply))
   \<and> rows_of (fetch_symbol padding_pandas ''AAPL'' (Some no_data_reply)) = []
   \<and> \<not> is_frame (fetch_symbol padding_pandas ''AAPL'' None)
   \<and> rows_of (fetch_symbol padding_pandas ''AAPL'' None) = []
   \<and> plain_frame [1714521600, 1714608000] [Some 100, Some 140] [Some 110, Some 160]
        [Some 90, Some 130] [Some 105, Some 150] [Some 100, Some 150]
   \<and> \<not> frame_raises padding_pandas [1714521600, 1714608000] [Some 100, Some 140]
        [Some 110, Some 160] [Some 90, Some 130] [Some 105, Some 150] [Some 100, Some 150]"
proof -
  have t2: "rs_t two_day_reply = Some [1714521600, 1714608000]"
    by (simp add: two_day_reply_def)
  have f2: "is_frame (fetch_symbol padding_pandas ''AAPL'' (Some two_day_reply))"
    by (simp add: fetch_two_day)
  have f1: "\<not> is_frame (fetch_symbol padding_pandas ''AAPL'' (Some no_data_reply))"
    by (simp add: fetch_symbol_def no_data_reply_def)
  have f0: "\<not> is_frame (fetch_symbol padding_pandas ''AAPL'' None)"
    by (simp add: fetch_symbol_def)
  have pl: "plain_frame [1714521600, 1714608000] [Some 100, Some 140] [Some 110, Some 160]
        [Some 90, Some 130] [Some 105, Some 150] [Some 100, Some 150]"
    by (simp add: plain_frame_def plain_column_def within_ns_range_def)
  from fetch_row_count [of padding_pandas "''AAPL''" "Some two_day_reply"] t2 f2
  have a: "length (rows_of (fetch_symbol padding_pandas ''AAPL'' (Some two_day_reply))) = 2"
    by simp
  from fetch_row_count [of padding_pandas "''AAPL''" "Some no_data_reply"] f1
  have b: "rows_of (fetch_symbol padding_pandas ''AAPL'' (Some no_data_reply)) = []" by blast
  from fetch_row_count [of padding_pandas "''AAPL''" None] f0
  have c: "rows_of (fetch_symbol padding_pandas ''AAPL'' None) = []" by blast
  from fetch_row_count [of padding_pandas "''AAPL''" None] pl
  have e: "\<not> frame_raises padding_pandas [1714521600, 1714608000] [Some 100, Some 140]
        [Some 110, Some 160] [Some 90, Some 130] [Some 105, Some 150] [Some 100, Some 150]"
    by blast
  show ?thesis using t2 f2 f1 f0 pl a b c e by simp
qed

text \<open>
  C9 as first stated takes the status "ok" and a non-empty array of instants to be
  enough. They are not: for a reply with that status and one instant and no price array,
  \<open>data['o']\<close> raises KeyError, the \<open>except\<close> clause skips the symbol, and no row is
  produced for one instant.
\<close>

theorem fetch_ok_without_prices_counterexample:
  "rs_s ok_without_prices = Some ''ok''
   \<and> rs_t ok_without_prices = Some [1714521600]
   \<and> fetch_symbol padding_pandas ''AAPL'' (Some ok_without_prices) = FetchError
   \<and> fetch_symbol plain_pandas ''AAPL'' (Some ok_without_prices) = FetchError
   \<and> length (rows_of (fetch_symbol padding_pandas ''AAPL'' (Some ok_without_prices)))
       \<noteq> length [1714521600 :: int]
   \<and> length (rows_of (fetch_symbol plain_pandas ''AAPL'' (Some ok_without_prices)))
       \<noteq> length [1714521600 :: int]"
  by (simp add: fetch_symbol_def ok_without_prices_def)

subsection \<open>Fields with a default\<close>

text \<open>
  C10. The document of a row always has the fields hour, season and sentiment, and none
  is null: a missing hour becomes "0", a missing season "Unknown" and a missing sentiment
  "Neutral".
\<close>

theorem defaults_when_missing:
  assumes "i < length df"
  shows "field (generate_actions df ! i) ''hour''
           = Some (JStr (case r_hour (df ! i) of None \<Rightarrow> ''0'' | Some h \<Rightarrow> h))
    \<and> field (generate_actions df ! i) ''season''
           = Some (JStr (case r_season (df ! i) of None \<Rightarrow> ''Unknown'' | Some s \<Rightarrow> s))
    \<and> field (generate_actions df ! i) ''sentiment''
           = Some (JStr (case r_sentiment (df ! i) of None \<Rightarrow> ''Neutral'' | Some s \<Rightarrow> s))"
  using assms by (simp add: nth_generate_actions field_make_doc_required)

theorem defaults_when_missing_witness:
  "0 < length [(hd (sample_df 0))\<lparr>r_hour := None, r_season := None, r_sentiment := None\<rparr>]
   \<and> field (generate_actions
         [(hd (sample_df 0))\<lparr>r_hour := None, r_season := None, r_sentiment := None\<rparr>] ! 0) ''hour''
       = Some (JStr ''0'')
   \<and> field (generate_actions
         [(hd (sample_df 0))\<lparr>r_hour := None, r_season := None, r_sentiment := None\<rparr>] ! 0) ''season''
       = Some (JStr ''Unknown'')
   \<and> field (generate_actions
         [(hd (sample_df 0))\<lparr>r_hour := None, r_season := None, r_sentiment := None\<rparr>] ! 0) ''sentiment''
       = Some (JStr ''Neutral'')"
proof -
  have h: "0 < length [(hd (sample_df 0))\<lparr>r_hour := None, r_season := None, r_sentiment := None\<rparr>]"
    by simp
  show ?thesis
    using h defaults_when_missing [OF h] by (simp add: sample_df_def)
qed

end
